theory Spec2Isabelle
  imports Main
begin

text \<open>
  The error-handler registry of axios-error-manager (\<^verbatim>\<open>src/index.ts\<close>): the class
  \<^verbatim>\<open>ErrorHandlerRegistry\<close> with its store, its lookup through the chain of parents and
  its dispatch of a failure, and the factory \<^verbatim>\<open>createDealWith\<close>. Methods that throw
  return the thrown value as an outcome; methods of the registry that dispatch take the state
  they run in and return the state they leave.
\<close>

section \<open>JavaScript data\<close>

text \<open>
  The values that reach the registry from outside and carry no behaviour: response bodies
  (\<^verbatim>\<open>response.data\<close>, typed \<^verbatim>\<open>any\<close>), candidate keys, notification payloads and
  thrown non-error values. The registry does two things with a number: it tests its
  truthiness and it converts it to a string; a number is therefore kept as the text that
  \<^verbatim>\<open>String\<close> gives for it (\<^verbatim>\<open>500\<close> is \<open>DNum ''500''\<close>, and \<^verbatim>\<open>0\<close>, \<^verbatim>\<open>-0\<close> are
  \<open>DNum ''0''\<close>). An object is the list of its own properties in insertion order.
\<close>

datatype jdata =
    DUndefined
  | DNull
  | DBool bool
  | DNum string
  | DStr string
  | DArr "jdata list"
  | DObj "(string \<times> jdata) list"

text \<open>Truthiness, as \<^verbatim>\<open>if (v)\<close>, \<^verbatim>\<open>v && ...\<close> and \<^verbatim>\<open>v ? a : b\<close> test it.\<close>

fun js_truthy :: "jdata \<Rightarrow> bool" where
  "js_truthy DUndefined = False"
| "js_truthy DNull = False"
| "js_truthy (DBool b) = b"
| "js_truthy (DNum n) = (n \<noteq> ''0'' \<and> n \<noteq> ''NaN'')"
| "js_truthy (DStr s) = (s \<noteq> [])"
| "js_truthy (DArr xs) = True"
| "js_truthy (DObj ps) = True"

text \<open>\<^verbatim>\<open>v === undefined || v === null\<close>, the test behind \<^verbatim>\<open>??\<close>.\<close>

fun js_nullish :: "jdata \<Rightarrow> bool" where
  "js_nullish DUndefined = True"
| "js_nullish DNull = True"
| "js_nullish v = False"

text \<open>\<^verbatim>\<open>a ?? b\<close>.\<close>

definition js_coalesce :: "jdata \<Rightarrow> jdata \<Rightarrow> jdata" where
  "js_coalesce a b = (if js_nullish a then b else a)"

text \<open>
  \<^verbatim>\<open>v?.key\<close>: a property read that yields \<^verbatim>\<open>undefined\<close> on \<^verbatim>\<open>undefined\<close> and
  \<^verbatim>\<open>null\<close>, on a primitive or an array (none of the keys read by the registry exists
  there), and on an object that lacks the key.
\<close>

fun js_get :: "jdata \<Rightarrow> string \<Rightarrow> jdata" where
  "js_get (DObj ps) key = (case map_of ps key of Some v \<Rightarrow> v | None \<Rightarrow> DUndefined)"
| "js_get v key = DUndefined"

fun join_comma :: "string list \<Rightarrow> string" where
  "join_comma [] = []"
| "join_comma [s] = s"
| "join_comma (s # t # ss) = s @ CHR '','' # join_comma (t # ss)"

text \<open>
  \<^verbatim>\<open>String(v)\<close>. A number is its text. An array is the comma-joined strings of its elements, \<^verbatim>\<open>undefined\<close>
  and \<^verbatim>\<open>null\<close> elements giving the empty string; a plain object is
  \<^verbatim>\<open>[object Object]\<close>.
\<close>

fun js_String :: "jdata \<Rightarrow> string" where
  "js_String DUndefined = ''undefined''"
| "js_String DNull = ''null''"
| "js_String (DBool b) = (if b then ''true'' else ''false'')"
| "js_String (DNum n) = n"
| "js_String (DStr s) = s"
| "js_String (DArr xs) = join_comma (map (\<lambda>x. if js_nullish x then [] else js_String x) xs)"
| "js_String (DObj ps) = ''[object Object]''"

text \<open>
  Writing one property of an object: an existing key keeps its place and takes the new
  value, a new key is appended. Spreading \<^verbatim>\<open>{...target, ...source}\<close> writes the
  properties of the source in order.
\<close>

fun set_property :: "string \<Rightarrow> jdata \<Rightarrow> (string \<times> jdata) list \<Rightarrow> (string \<times> jdata) list" where
  "set_property key v [] = [(key, v)]"
| "set_property key v ((k, w) # ps) =
     (if k = key then (k, v) # ps else (k, w) # set_property key v ps)"

definition spread :: "(string \<times> jdata) list \<Rightarrow> (string \<times> jdata) list \<Rightarrow> (string \<times> jdata) list" where
  "spread target source = fold (\<lambda>(key, v). set_property key v) source target"

section \<open>Failures\<close>

text \<open>
  The request configuration with the two fields the module adds to it (\<^verbatim>\<open>raw?: boolean\<close>,
  \<^verbatim>\<open>silent?: boolean\<close>), the response with the two fields read from it, and the transport
  error of the HTTP client.
\<close>

record axios_config =
  raw :: "bool option"
  config_silent :: "bool option"

record axios_response =
  data :: jdata
  status :: jdata

record axios_error =
  response :: "axios_response option"
  config :: "axios_config option"
  code :: "string option"
  axios_name :: string
  axios_message :: string

text \<open>
  What \<^verbatim>\<open>responseErrorHandler\<close> can be handed (\<^verbatim>\<open>error: unknown\<close>): a transport error
  (\<^verbatim>\<open>isAxiosError\<close>), another instance of \<^verbatim>\<open>Error\<close> with its name and message, or any
  other value; \<^verbatim>\<open>null\<close> is \<open>Plain DNull\<close>.
\<close>

datatype failure =
    Axios axios_error
  | ErrorInstance (error_name: string) (error_message: string)
  | Plain jdata

section \<open>Handlers\<close>

text \<open>
  A descriptor is an object with the optional fields \<^verbatim>\<open>message\<close>, \<^verbatim>\<open>before\<close>,
  \<^verbatim>\<open>after\<close>, \<^verbatim>\<open>silent\<close> and \<^verbatim>\<open>notify\<close>. A hook is a function, held by reference:
  the field is the name of the function, and the functions themselves are in the state
  below.
\<close>

record descriptor =
  message :: "jdata option"
  before :: "nat option"
  after :: "nat option"
  silent :: "bool option"
  notify :: "(string \<times> jdata) list option"

text \<open>
  A hook is \<^verbatim>\<open>(error, options) => void\<close>: it is handed the failure and the descriptor
  that holds it, and it may write to that descriptor. It returns or throws, and either way
  leaves the descriptor as its outcome says. A hook is taken to write to nothing
  else that the registry reads.
\<close>

datatype hook_outcome = Completes descriptor | Throws jdata descriptor

text \<open>
  What a handler function returns (\<^verbatim>\<open>ErrorHandlerObject | void | boolean\<close>); an object
  with none of the five fields is the descriptor with every field absent. A handler function
  is taken to return, with an object of its own: it is the function from the failure to the
  value it returns. A handler that is an object is held by reference, as the object that was
  registered: a hook that writes to it writes to the object the registry holds.
\<close>

datatype js_value = Undefined | Boolean bool | Object descriptor

datatype handler =
    HString string
  | HFunction "failure \<Rightarrow> js_value"
  | HObject nat

fun isErrorHandlerObject :: "js_value \<Rightarrow> bool" where
  "isErrorHandlerObject (Object v) =
     (message v \<noteq> None \<or> after v \<noteq> None \<or> before v \<noteq> None \<or> silent v \<noteq> None \<or> notify v \<noteq> None)"
| "isErrorHandlerObject v = False"

text \<open>\<^verbatim>\<open>if (handler)\<close> on a registered handler: only the empty string is falsy.\<close>

fun handler_truthy :: "handler \<Rightarrow> bool" where
  "handler_truthy (HString m) = (m \<noteq> [])"
| "handler_truthy (HFunction f) = True"
| "handler_truthy (HObject v) = True"

section \<open>The registry\<close>

text \<open>
  A notifier is \<^verbatim>\<open>(options) => void\<close>, a sink: it is known by which function it is, it
  is taken to return, and its effect is the list of option objects it was called with, kept
  in the state below.
\<close>

datatype notifier = DefaultNotifier | CustomNotifier nat

text \<open>
  The parent is set by the constructor and never reassigned, so the chain of parents is
  finite; dispatch reads it and writes nothing, and the parent is held in the registry value.
\<close>

datatype registry =
  Registry (handlers: "string \<Rightarrow> handler option") (parent: "registry option") (notifier: notifier)

definition setNotifier :: "notifier option \<Rightarrow> registry \<Rightarrow> registry" where
  "setNotifier fn r =
     (case fn of Some f \<Rightarrow> Registry (handlers r) (parent r) f | None \<Rightarrow> r)"

definition register :: "string \<Rightarrow> handler \<Rightarrow> registry \<Rightarrow> registry" where
  "register key h r = Registry ((handlers r)(key \<mapsto> h)) (parent r) (notifier r)"

definition unregister :: "string \<Rightarrow> registry \<Rightarrow> registry" where
  "unregister key r = Registry ((handlers r)(key := None)) (parent r) (notifier r)"

definition registerMany :: "(string \<times> handler) list \<Rightarrow> registry \<Rightarrow> registry" where
  "registerMany input r = fold (\<lambda>(key, v). register key v) input r"

text \<open>The constructor; an argument left out, or a notifier that is no function, is \<open>None\<close>.\<close>

definition new_registry ::
  "registry option \<Rightarrow> (string \<times> handler) list option \<Rightarrow> notifier option \<Rightarrow> registry" where
  "new_registry p input fn =
     (let r = Registry Map.empty p (case fn of Some f \<Rightarrow> f | None \<Rightarrow> DefaultNotifier)
      in case input of Some i \<Rightarrow> registerMany i r | None \<Rightarrow> r)"

text \<open>\<^verbatim>\<open>find\<close>: the local entry if it is truthy, else the parent's answer, else nothing.\<close>

fun find_handler :: "registry \<Rightarrow> string \<Rightarrow> handler option" where
  "find_handler (Registry hs p n) seek =
     (let h = hs seek in
      if (case h of Some v \<Rightarrow> handler_truthy v | None \<Rightarrow> False) then h
      else (case p of Some pr \<Rightarrow> find_handler pr seek | None \<Rightarrow> None))"

text \<open>The registry, its parent, the parent's parent and so on: what \<^verbatim>\<open>find\<close> can visit.\<close>

fun chain :: "registry \<Rightarrow> registry list" where
  "chain (Registry hs p n) = Registry hs p n # (case p of Some pr \<Rightarrow> chain pr | None \<Rightarrow> [])"

section \<open>Dispatch\<close>

text \<open>
  The state a dispatch runs in: the registry it is called on, the contents of the objects
  registered as handlers, the functions used as hooks, and the calls made to notifiers so
  far, each with the options object it received.
\<close>

record state =
  self :: registry
  objects :: "nat \<Rightarrow> descriptor"
  hooks :: "nat \<Rightarrow> failure \<Rightarrow> descriptor \<Rightarrow> hook_outcome"
  notified :: "(notifier \<times> (string \<times> jdata) list) list"

datatype thrown =
    ApiError string
  | Original failure
  | PlainError string
  | HookThrew jdata

datatype 'a outcome = Returned 'a | Threw thrown

text \<open>
  The \<^verbatim>\<open>options\<close> of \<^verbatim>\<open>handleErrorObject\<close>: an object made for this call (from a
  string handler, by a handler function, or by the transport branch), or the registered
  object. Reading a field reads the object as it is now; what a hook wrote stays written.
\<close>

datatype target = Fresh descriptor | Stored nat

fun deref :: "target \<Rightarrow> state \<Rightarrow> descriptor" where
  "deref (Fresh v) s = v"
| "deref (Stored p) s = objects s p"

fun assign :: "target \<Rightarrow> descriptor \<Rightarrow> state \<Rightarrow> target \<times> state" where
  "assign (Fresh v) w s = (Fresh w, s)"
| "assign (Stored p) w s = (Stored p, s\<lparr>objects := (objects s)(p := w)\<rparr>)"

text \<open>
  \<^verbatim>\<open>options.before?.(error, options)\<close> and \<^verbatim>\<open>options.after?.(error, options)\<close>: what
  the hook threw, if it did, and the object and the state it left.
\<close>

definition call_hook ::
  "(descriptor \<Rightarrow> nat option) \<Rightarrow> failure \<Rightarrow> target \<Rightarrow> state \<Rightarrow> jdata option \<times> target \<times> state" where
  "call_hook field error options s =
     (case field (deref options s) of
        None \<Rightarrow> (None, options, s)
      | Some h \<Rightarrow>
          (case hooks s h error (deref options s) of
             Completes w \<Rightarrow> (None, assign options w s)
           | Throws x w \<Rightarrow> (Some x, assign options w s)))"

text \<open>\<^verbatim>\<open>options.message\<close> as read from the descriptor.\<close>

definition message_of :: "descriptor \<Rightarrow> jdata" where
  "message_of v = (case message v of Some m \<Rightarrow> m | None \<Rightarrow> DUndefined)"

text \<open>
  The message of \<^verbatim>\<open>new ApiError(m)\<close>: \<^verbatim>\<open>Error\<close> leaves it empty for \<^verbatim>\<open>undefined\<close>
  and converts anything else to a string.
\<close>

definition api_error_message :: "jdata \<Rightarrow> string" where
  "api_error_message m = (if m = DUndefined then [] else js_String m)"

text \<open>The object passed to the notifier.\<close>

definition notifier_options :: "descriptor \<Rightarrow> (string \<times> jdata) list" where
  "notifier_options v =
     spread [(''type'', DStr ''negative''), (''message'', message_of v)]
       (case notify v of Some p \<Rightarrow> p | None \<Rightarrow> [])"

text \<open>
  \<^verbatim>\<open>handleErrorObject\<close>: \<^verbatim>\<open>silent\<close>, \<^verbatim>\<open>message\<close>, \<^verbatim>\<open>notify\<close> and \<^verbatim>\<open>after\<close> are read
  after \<^verbatim>\<open>before\<close> has returned, the message of the \<open>ApiError\<close> after \<^verbatim>\<open>after\<close> has.
\<close>

definition handleErrorObject :: "failure \<Rightarrow> target \<Rightarrow> state \<Rightarrow> unit outcome \<times> state" where
  "handleErrorObject error options s =
     (case call_hook before error options s of
        (Some x, o1, s1) \<Rightarrow> (Threw (HookThrew x), s1)
      | (None, o1, s1) \<Rightarrow>
          (let s2 = (if silent (deref o1 s1) = Some True then s1
                     else s1\<lparr>notified := notified s1 @
                            [(notifier (self s1), notifier_options (deref o1 s1))]\<rparr>)
           in case call_hook after error o1 s2 of
                (Some x, o2, s3) \<Rightarrow> (Threw (HookThrew x), s3)
              | (None, o2, s3) \<Rightarrow>
                  (Threw (ApiError (api_error_message (message_of (deref o2 s3)))), s3)))"

text \<open>A call followed by \<^verbatim>\<open>return v\<close>.\<close>

definition then_return :: "unit outcome \<times> state \<Rightarrow> 'a \<Rightarrow> 'a outcome \<times> state" where
  "then_return r v = (case r of (Returned u, s) \<Rightarrow> (Returned v, s) | (Threw e, s) \<Rightarrow> (Threw e, s))"

text \<open>\<^verbatim>\<open>handleError\<close> on one key (the part after the array test).\<close>

definition handleError_key :: "string \<Rightarrow> failure \<Rightarrow> state \<Rightarrow> bool outcome \<times> state" where
  "handleError_key seek error s =
     (case find_handler (self s) seek of
        None \<Rightarrow> (Returned False, s)
      | Some h \<Rightarrow>
          if \<not> handler_truthy h then (Returned False, s)
          else (case h of
              HString m \<Rightarrow>
                then_return (handleErrorObject error
                  (Fresh \<lparr>message = Some (DStr m), before = None, after = None, silent = None,
                          notify = None\<rparr>) s) True
            | HFunction f \<Rightarrow>
                (case f error of
                   Object v \<Rightarrow>
                     if isErrorHandlerObject (Object v)
                     then then_return (handleErrorObject error (Fresh v) s) True
                     else (Returned False, s)
                 | result \<Rightarrow> (Returned False, s))
            | HObject p \<Rightarrow>
                if isErrorHandlerObject (Object (objects s p))
                then then_return (handleErrorObject error (Stored p) s) True
                else (Returned False, s)))"

text \<open>
  \<^verbatim>\<open>seek.some((key) => key !== undefined && this.handleError(String(key), error))\<close>.
\<close>

fun handleError_some :: "jdata list \<Rightarrow> failure \<Rightarrow> state \<Rightarrow> bool outcome \<times> state" where
  "handleError_some [] error s = (Returned False, s)"
| "handleError_some (key # rest) error s =
     (if key = DUndefined then handleError_some rest error s
      else (case handleError_key (js_String key) error s of
              (Returned True, s') \<Rightarrow> (Returned True, s')
            | (Returned False, s') \<Rightarrow> handleError_some rest error s'
            | (Threw e, s') \<Rightarrow> (Threw e, s')))"

datatype seek = Key string | Keys "jdata list"

fun handleError :: "seek \<Rightarrow> failure \<Rightarrow> state \<Rightarrow> bool outcome \<times> state" where
  "handleError (Keys keys) error s = handleError_some keys error s"
| "handleError (Key k) error s = handleError_key k error s"

text \<open>
  \<^verbatim>\<open>handleAxiosError\<close> from the body message on (what follows the raw test), then the
  whole function.
\<close>

definition body_message :: "jdata \<Rightarrow> string option" where
  "body_message d =
     (case js_get d ''message'' of DStr m \<Rightarrow> if m \<noteq> [] then Some m else None | v \<Rightarrow> None)"

definition body_description :: "jdata \<Rightarrow> string option" where
  "body_description d =
     (case js_get d ''description'' of DStr m \<Rightarrow> if m \<noteq> [] then Some m else None | v \<Rightarrow> None)"

definition response_data :: "axios_error \<Rightarrow> jdata" where
  "response_data error = (case response error of Some r \<Rightarrow> data r | None \<Rightarrow> DUndefined)"

definition request_silent :: "axios_error \<Rightarrow> bool option" where
  "request_silent error = (case config error of Some c \<Rightarrow> config_silent c | None \<Rightarrow> None)"

definition request_raw :: "axios_error \<Rightarrow> bool" where
  "request_raw error = (case config error of Some c \<Rightarrow> raw c = Some True | None \<Rightarrow> False)"

definition seekers :: "axios_error \<Rightarrow> jdata list" where
  "seekers error =
     (let d = response_data error in
      [ js_get d ''code'',
        (case code error of Some c \<Rightarrow> DStr c | None \<Rightarrow> DUndefined),
        DStr (axios_name error),
        (if js_truthy (js_get d ''status'') then DStr (js_String (js_get d ''status'')) else DUndefined),
        (case response error of
           Some r \<Rightarrow> if js_truthy (status r) then DStr (js_String (status r)) else DUndefined
         | None \<Rightarrow> DUndefined) ])"

text \<open>\<^verbatim>\<open>data?.message ?? data?.description ?? error.message\<close>.\<close>

definition fallback_message :: "axios_error \<Rightarrow> jdata" where
  "fallback_message error =
     js_coalesce (js_get (response_data error) ''message'')
       (js_coalesce (js_get (response_data error) ''description'') (DStr (axios_message error)))"

definition handleAxiosError_resolve :: "axios_error \<Rightarrow> state \<Rightarrow> jdata outcome \<times> state" where
  "handleAxiosError_resolve error s =
     (let d = response_data error; sil = request_silent error in
      case body_message d of
        Some m \<Rightarrow>
          then_return (handleErrorObject (Axios error)
            (Fresh \<lparr>message = Some (DStr m), before = None, after = None, silent = sil,
                    notify = None\<rparr>) s) DUndefined
      | None \<Rightarrow>
          (case handleError (Keys (seekers error)) (Axios error) s of
             (Threw e, s') \<Rightarrow> (Threw e, s')
           | (Returned True, s') \<Rightarrow> (Returned DUndefined, s')
           | (Returned False, s') \<Rightarrow>
               if body_message d \<noteq> None \<or> body_description d \<noteq> None \<or> axios_message error \<noteq> []
               then then_return (handleErrorObject (Axios error)
                      (Fresh \<lparr>message = Some (fallback_message error), before = None,
                              after = None, silent = sil, notify = None\<rparr>) s') DUndefined
               else (Returned DUndefined, s')))"

definition handleAxiosError :: "axios_error \<Rightarrow> bool \<Rightarrow> state \<Rightarrow> jdata outcome \<times> state" where
  "handleAxiosError error direct s =
     (if \<not> direct \<and> request_raw error then (Threw (Original (Axios error)), s)
      else handleAxiosError_resolve error s)"

definition responseErrorHandler :: "failure \<Rightarrow> bool \<Rightarrow> state \<Rightarrow> jdata outcome \<times> state" where
  "responseErrorHandler error direct s =
     (if error = Plain DNull then (Threw (PlainError ''Unrecoverable error: error is null''), s)
      else (case error of
          Axios e \<Rightarrow> handleAxiosError e direct s
        | ErrorInstance n m \<Rightarrow>
            (case handleError (Key n) error s of
               (Threw e, s') \<Rightarrow> (Threw e, s')
             | (Returned b, s') \<Rightarrow> (Threw (Original error), s'))
        | Plain v \<Rightarrow> (Threw (Original error), s)))"

text \<open>
  \<^verbatim>\<open>createDealWith(globalHandlers, notifier)(solutions, ignoreGlobal)(error)\<close>: the local
  registry is built, then asked with \<^verbatim>\<open>direct = true\<close>. The last argument is the state
  the closure is called in; the registry of the call is the local one.
\<close>

definition createDealWith ::
  "registry \<Rightarrow> notifier option \<Rightarrow> (string \<times> handler) list \<Rightarrow> bool \<Rightarrow> failure \<Rightarrow>
   state \<Rightarrow> jdata outcome \<times> state" where
  "createDealWith globalHandlers fn solutions ignoreGlobal error s =
     (let p = (if ignoreGlobal then None else Some globalHandlers);
          local = new_registry p (Some solutions) fn
      in responseErrorHandler error True (s\<lparr>self := local\<rparr>))"

section \<open>Sample inputs\<close>

text \<open>
  The fixtures of the repository's test-suite: an error, and a registry built with a notifier
  of its own and no parent.
\<close>

definition sampleError :: failure where
  "sampleError = ErrorInstance ''Error'' ''test''"

definition test_registry :: registry where
  "test_registry = new_registry None None (Some (CustomNotifier 0))"

text \<open>
  The functions used as hooks: function 1 throws, function 2 throws, function 3 sets
  \<^verbatim>\<open>options.silent = true\<close> and returns, function 4 sets \<^verbatim>\<open>options.silent = false\<close> and
  returns, every other function returns and writes nothing (a mock).
\<close>

definition test_hooks :: "nat \<Rightarrow> failure \<Rightarrow> descriptor \<Rightarrow> hook_outcome" where
  "test_hooks h error v =
     (if h = 1 then Throws (DStr ''before failed'') v
      else if h = 2 then Throws (DStr ''after failed'') v
      else if h = 3 then Completes (v\<lparr>silent := Some True\<rparr>)
      else if h = 4 then Completes (v\<lparr>silent := Some False\<rparr>)
      else Completes v)"

text \<open>
  The objects that the tests register: the test-suite's descriptor E2; the same with a
  payload that names the notifier's own fields; the same with a \<^verbatim>\<open>before\<close> hook that
  throws; the same with a \<^verbatim>\<open>before\<close> hook that sets \<^verbatim>\<open>silent\<close>; the silent descriptor
  E3; the same with an \<^verbatim>\<open>after\<close> hook that throws; the same with a \<^verbatim>\<open>before\<close> hook that
  clears \<^verbatim>\<open>silent\<close>; and \<^verbatim>\<open>{message: ''}\<close>.
\<close>

definition erreur_2 :: descriptor where
  "erreur_2 = \<lparr>message = Some (DStr ''erreur 2''), before = Some 0, after = Some 0,
     silent = Some False, notify = Some [(''extra'', DNum ''42'')]\<rparr>"

definition erreur_2_warning :: descriptor where
  "erreur_2_warning =
     erreur_2\<lparr>notify := Some [(''type'', DStr ''warning''), (''message'', DStr ''see the log'')]\<rparr>"

definition erreur_2_before_throws :: descriptor where
  "erreur_2_before_throws = erreur_2\<lparr>before := Some 1\<rparr>"

definition erreur_2_before_silences :: descriptor where
  "erreur_2_before_silences = erreur_2\<lparr>before := Some 3\<rparr>"

definition erreur_3 :: descriptor where
  "erreur_3 = \<lparr>message = Some (DStr ''erreur 3''), before = None, after = None,
     silent = Some True, notify = None\<rparr>"

definition erreur_3_after_throws :: descriptor where
  "erreur_3_after_throws = erreur_3\<lparr>after := Some 2\<rparr>"

definition erreur_3_before_unsilences :: descriptor where
  "erreur_3_before_unsilences = erreur_3\<lparr>before := Some 4\<rparr>"

definition empty_message :: descriptor where
  "empty_message = \<lparr>message = Some (DStr []), before = None, after = None, silent = None,
     notify = None\<rparr>"

text \<open>Where these objects are; every other object is \<^verbatim>\<open>{}\<close>.\<close>

definition test_objects :: "nat \<Rightarrow> descriptor" where
  "test_objects p =
     (if p = 1 then empty_message
      else if p = 2 then erreur_2
      else if p = 3 then erreur_3
      else if p = 4 then erreur_2_warning
      else if p = 5 then erreur_2_before_throws
      else if p = 6 then erreur_2_before_silences
      else if p = 7 then erreur_3_after_throws
      else if p = 8 then erreur_3_before_unsilences
      else \<lparr>message = None, before = None, after = None, silent = None, notify = None\<rparr>)"

text \<open>A dispatch on a registry that starts with these objects and no notifier call made.\<close>

definition start :: "registry \<Rightarrow> state" where
  "start r = \<lparr>self = r, objects = test_objects, hooks = test_hooks, notified = []\<rparr>"

text \<open>
  \<^verbatim>\<open>new AxiosError(message, code)\<close> of the HTTP client, and the transport errors the
  test-suite builds from it: one with \<^verbatim>\<open>config.raw\<close>, one with \<^verbatim>\<open>config.raw\<close> and a
  body message, one with a body message, and the same with \<^verbatim>\<open>config.silent\<close>.
\<close>

definition new_AxiosError :: "string \<Rightarrow> string option \<Rightarrow> axios_error" where
  "new_AxiosError m c =
     \<lparr>response = None, config = None, code = c, axios_name = ''AxiosError'', axios_message = m\<rparr>"



definition axios_msg_api :: axios_error where
  "axios_msg_api = (new_AxiosError ''axios'' (Some ''E1''))
     \<lparr>config := Some \<lparr>raw = None, config_silent = Some False\<rparr>,
      response := Some \<lparr>data = DObj [(''message'', DStr ''msg API'')], status = DNum ''400''\<rparr>\<rparr>"

definition axios_msg_api_silent :: axios_error where
  "axios_msg_api_silent = (new_AxiosError ''axios'' None)
     \<lparr>config := Some \<lparr>raw = None, config_silent = Some True\<rparr>,
      response := Some \<lparr>data = DObj [(''message'', DStr ''msg API'')], status = DUndefined\<rparr>\<rparr>"

text \<open>
  The transport error of the \<^verbatim>\<open>createDealWith\<close> test, code \<^verbatim>\<open>TEST\<close> and no response: sent
  with \<^verbatim>\<open>config.silent\<close>; sent with \<^verbatim>\<open>config.raw\<close>; and one with \<^verbatim>\<open>config.raw\<close> whose
  code is \<^verbatim>\<open>NOT_EXIST\<close>.
\<close>

definition axios_silent_test :: axios_error where
  "axios_silent_test = (new_AxiosError ''Error Message'' (Some ''TEST''))
     \<lparr>config := Some \<lparr>raw = None, config_silent = Some True\<rparr>\<rparr>"



section \<open>Properties\<close>

lemmas sample_defs = sampleError_def test_registry_def start_def new_registry_def register_def
  registerMany_def unregister_def test_hooks_def test_objects_def

lemmas dispatch_defs = handleError_key_def handleErrorObject_def then_return_def call_hook_def
  message_of_def api_error_message_def notifier_options_def spread_def

lemmas axios_defs = new_AxiosError_def responseErrorHandler_def handleAxiosError_def
  handleAxiosError_resolve_def body_message_def body_description_def response_data_def
  request_silent_def request_raw_def seekers_def js_coalesce_def fallback_message_def

lemmas descriptor_defs = erreur_2_def erreur_2_warning_def erreur_2_before_throws_def
  erreur_2_before_silences_def erreur_3_def erreur_3_after_throws_def
  erreur_3_before_unsilences_def empty_message_def

subsection \<open>Objects\<close>

lemma map_of_set_property: "map_of (set_property key v ps) = (map_of ps)(key \<mapsto> v)"
  by (induction ps) auto

lemma map_of_spread: "map_of (spread target source) = map_of target ++ map_of (rev source)"
  unfolding spread_def
proof (induction source arbitrary: target)
  case Nil
  show ?case by simp
next
  case (Cons p source)
  obtain k v where p: "p = (k, v)" by (cases p)
  have "map_of (fold (\<lambda>(key, v). set_property key v) (p # source) target) =
        map_of (set_property k v target) ++ map_of (rev source)"
    by (simp add: p Cons.IH)
  also have "\<dots> = map_of target ++ map_of (rev (p # source))"
    by (auto simp: p map_of_set_property fun_eq_iff map_add_def split: option.splits)
  finally show ?case .
qed

subsection \<open>The shape of every dispatch\<close>

text \<open>
  A hook call leaves the registry, the functions and the notifier calls as they were; it
  can change the contents of the registered object it was handed.
\<close>

lemma assign_frame:
  "self (snd (assign options w s)) = self s \<and> notified (snd (assign options w s)) = notified s \<and>
   hooks (snd (assign options w s)) = hooks s"
  by (cases options) simp_all

lemma call_hook_cases:
  obtains x o' s' where "call_hook field error options s = (x, o', s')"
    and "self s' = self s" and "notified s' = notified s" and "hooks s' = hooks s"
proof (cases "field (deref options s)")
  case None
  then have "call_hook field error options s = (None, options, s)"
    by (simp add: call_hook_def)
  then show thesis by (rule that) simp_all
next
  case (Some h)
  show thesis
  proof (cases "hooks s h error (deref options s)")
    case (Completes w)
    with Some have "call_hook field error options s =
        (None, fst (assign options w s), snd (assign options w s))"
      by (simp add: call_hook_def)
    then show thesis by (rule that) (simp_all add: assign_frame)
  next
    case (Throws x w)
    with Some have "call_hook field error options s =
        (Some x, fst (assign options w s), snd (assign options w s))"
      by (simp add: call_hook_def)
    then show thesis by (rule that) (simp_all add: assign_frame)
  qed
qed

text \<open>
  Executing a descriptor ends in a raise, keeps the registry, and calls the notifier at
  most once. The same then holds of a key that resolves; a key that does not resolve
  returns \<open>False\<close> and changes nothing.
\<close>

lemma handleErrorObject_cases:
  obtains e s' where "handleErrorObject error options s = (Threw e, s')"
    and "(\<exists>m. e = ApiError m) \<or> (\<exists>x. e = HookThrew x)"
    and "self s' = self s"
    and "\<exists>calls. notified s' = notified s @ calls \<and> length calls \<le> 1"
proof -
  obtain x1 o1 s1 where c1: "call_hook before error options s = (x1, o1, s1)"
    and f1: "self s1 = self s" "notified s1 = notified s"
    by (rule call_hook_cases)
  show thesis
  proof (cases x1)
    case (Some x)
    with c1 have "handleErrorObject error options s = (Threw (HookThrew x), s1)"
      by (simp add: handleErrorObject_def)
    then show thesis by (rule that) (simp_all add: f1)
  next
    case None
    define s2 where "s2 = (if silent (deref o1 s1) = Some True then s1
                     else s1\<lparr>notified := notified s1 @
                            [(notifier (self s1), notifier_options (deref o1 s1))]\<rparr>)"
    have f2: "self s2 = self s" "\<exists>calls. notified s2 = notified s @ calls \<and> length calls \<le> 1"
      by (auto simp: s2_def f1)
    obtain x2 o2 s3 where c2: "call_hook after error o1 s2 = (x2, o2, s3)"
      and f3: "self s3 = self s2" "notified s3 = notified s2"
      by (rule call_hook_cases)
    show thesis
    proof (cases x2)
      case (Some x)
      with c1 c2 None have "handleErrorObject error options s = (Threw (HookThrew x), s3)"
        by (simp add: handleErrorObject_def s2_def)
      then show thesis by (rule that) (use f2 f3 in simp_all)
    next
      case n: None
      with c1 c2 None have "handleErrorObject error options s =
          (Threw (ApiError (api_error_message (message_of (deref o2 s3)))), s3)"
        by (simp add: handleErrorObject_def s2_def)
      then show thesis by (rule that) (use f2 f3 in simp_all)
    qed
  qed
qed

lemma then_return_cases:
  obtains e s' where "then_return (handleErrorObject error options s) x = (Threw e, s')"
    and "(\<exists>m. e = ApiError m) \<or> (\<exists>x. e = HookThrew x)"
    and "self s' = self s"
    and "\<exists>calls. notified s' = notified s @ calls \<and> length calls \<le> 1"
proof -
  obtain e s' where h: "handleErrorObject error options s = (Threw e, s')"
    "(\<exists>m. e = ApiError m) \<or> (\<exists>x. e = HookThrew x)" "self s' = self s"
    "\<exists>calls. notified s' = notified s @ calls \<and> length calls \<le> 1"
    by (rule handleErrorObject_cases)
  have "then_return (handleErrorObject error options s) x = (Threw e, s')"
    by (simp add: then_return_def h(1))
  then show thesis using h(2-4) by (rule that)
qed

lemma handleError_key_shape:
  "handleError_key k error s = (Returned False, s) \<or>
   (\<exists>v. handleError_key k error s = then_return (handleErrorObject error v s) True)"
  unfolding handleError_key_def
  by (auto split: option.splits handler.splits js_value.splits)

lemma handleError_key_cases:
  obtains (declined) "handleError_key k error s = (Returned False, s)"
  | (raised) e s' where "handleError_key k error s = (Threw e, s')"
    and "(\<exists>m. e = ApiError m) \<or> (\<exists>x. e = HookThrew x)"
    and "self s' = self s"
    and "\<exists>calls. notified s' = notified s @ calls \<and> length calls \<le> 1"
proof -
  from handleError_key_shape [of k error s] show thesis
  proof
    assume "handleError_key k error s = (Returned False, s)"
    then show thesis by (rule declined)
  next
    assume "\<exists>v. handleError_key k error s = then_return (handleErrorObject error v s) True"
    then obtain v where v: "handleError_key k error s = then_return (handleErrorObject error v s) True" ..
    obtain e s' where h: "then_return (handleErrorObject error v s) True = (Threw e, s')"
      "(\<exists>m. e = ApiError m) \<or> (\<exists>x. e = HookThrew x)" "self s' = self s"
      "\<exists>calls. notified s' = notified s @ calls \<and> length calls \<le> 1"
      by (rule then_return_cases)
    with v show thesis by (auto intro: raised)
  qed
qed

lemma handleError_some_cases:
  obtains (declined) "handleError_some keys error s = (Returned False, s)"
  | (raised) e s' where "handleError_some keys error s = (Threw e, s')"
    and "(\<exists>m. e = ApiError m) \<or> (\<exists>x. e = HookThrew x)"
    and "self s' = self s"
    and "\<exists>calls. notified s' = notified s @ calls \<and> length calls \<le> 1"
proof (induction keys arbitrary: thesis)
  case Nil
  then show ?case by simp
next
  case (Cons key rest)
  show ?case
  proof (cases "key = DUndefined")
    case True
    show ?thesis
      by (rule Cons.IH) (auto simp: True intro: Cons.prems)
  next
    case False
    show ?thesis
    proof (cases "js_String key" error s rule: handleError_key_cases)
      case declined
      show ?thesis
        by (rule Cons.IH) (auto simp: False declined intro: Cons.prems)
    next
      case (raised e s')
      then show ?thesis
        by (auto simp: False intro: Cons.prems(2))
    qed
  qed
qed

lemma handleError_cases:
  obtains (declined) "handleError seek error s = (Returned False, s)"
  | (raised) e s' where "handleError seek error s = (Threw e, s')"
    and "(\<exists>m. e = ApiError m) \<or> (\<exists>x. e = HookThrew x)"
    and "self s' = self s"
    and "\<exists>calls. notified s' = notified s @ calls \<and> length calls \<le> 1"
proof (cases seek)
  case (Key k)
  show ?thesis
    by (cases k error s rule: handleError_key_cases) (auto simp: Key intro: declined raised)
next
  case (Keys keys)
  show ?thesis
    by (cases keys error s rule: handleError_some_cases) (auto simp: Keys intro: declined raised)
qed

subsection \<open>handleError never returns true\<close>

text \<open>
  Claim C9. Whatever the key or the sequence of keys and whatever the failure,
  \<^verbatim>\<open>handleError\<close> returns \<open>False\<close>, or raises an \<open>ApiError\<close>, or raises what a
  \<^verbatim>\<open>before\<close> or \<^verbatim>\<open>after\<close> hook threw. It does not return \<open>True\<close>, because executing
  a descriptor always ends in one of these two raises.
\<close>

theorem handleError_never_returns_true:
  "(fst (handleError seek error s) = Returned False \<or>
    (\<exists>m. fst (handleError seek error s) = Threw (ApiError m)) \<or>
    (\<exists>x. fst (handleError seek error s) = Threw (HookThrew x))) \<and>
   fst (handleError seek error s) \<noteq> Returned True \<and>
   ((\<exists>m. fst (handleErrorObject error v s) = Threw (ApiError m)) \<or>
    (\<exists>x. fst (handleErrorObject error v s) = Threw (HookThrew x)))"
proof -
  have exec: "(\<exists>m. fst (handleErrorObject error v s) = Threw (ApiError m)) \<or>
    (\<exists>x. fst (handleErrorObject error v s) = Threw (HookThrew x))"
    by (rule handleErrorObject_cases [of error v s]) auto
  show ?thesis
    by (cases seek error s rule: handleError_cases) (use exec in auto)
qed

text \<open>
  At the test-suite's inputs: a string handler raises, a function handler that returns
  nothing makes \<^verbatim>\<open>handleError\<close> return \<open>False\<close>.
\<close>

theorem handleError_never_returns_true_witness:
  "fst (handleError (Key ''E1'') sampleError (start (register ''E1'' (HString ''erreur 1'') test_registry)))
     = Threw (ApiError ''erreur 1'') \<and>
   fst (handleError (Key ''E4'') sampleError (start (register ''E4'' (HFunction (\<lambda>e. Undefined)) test_registry)))
     = Returned False"
  using handleError_never_returns_true
    [of "Key ''E1''" sampleError "start (register ''E1'' (HString ''erreur 1'') test_registry)"]
  by (simp add: sample_defs dispatch_defs)

subsection \<open>Dispatch writes nothing to the registry\<close>

lemma mutators_write:
  "handlers (register k h r) k = Some h \<and> handlers (unregister k r) k = None \<and>
   notifier (setNotifier (Some f) r) = f \<and> setNotifier None r = r \<and>
   handlers (registerMany [(k, h)] r) k = Some h"
  by (simp add: register_def unregister_def setNotifier_def registerMany_def)

text \<open>
  Claim C10. \<^verbatim>\<open>handleError\<close>, the transport branch and \<^verbatim>\<open>responseErrorHandler\<close> leave
  the registry they are called on as it was: its handlers, its parent and its notifier are
  the same after the call, whatever the outcome; the closure built by \<^verbatim>\<open>createDealWith\<close>
  leaves the local registry as the constructor made it. \<^verbatim>\<open>find\<close> is a read, a function of
  the registry. Only \<open>register\<close>, \<open>unregister\<close>, \<open>registerMany\<close>, \<open>setNotifier\<close> and the
  constructor produce a registry.
\<close>

theorem dispatch_keeps_registry:
  "self (snd (handleError seek error s)) = self s \<and>
   self (snd (handleAxiosError e direct s)) = self s \<and>
   self (snd (responseErrorHandler error direct s)) = self s \<and>
   self (snd (createDealWith g fn solutions ignoreGlobal error calls)) =
     new_registry (if ignoreGlobal then None else Some g) (Some solutions) fn"
proof -
  have a: "self (snd (handleError k err t)) = self t" for k err t
    by (cases k err t rule: handleError_cases) auto
  have o: "self (snd (then_return (handleErrorObject err v t) x)) = self t"
    for err v t and x :: jdata
    by (rule then_return_cases [of err v t x]) auto
  have r: "self (snd (handleAxiosError_resolve a t)) = self t" for a t
  proof (cases "Keys (seekers a)" "Axios a" t rule: handleError_cases)
    case declined
    then show ?thesis
      by (simp add: handleAxiosError_resolve_def Let_def o split: option.splits)
  next
    case (raised e s')
    then show ?thesis
      by (simp add: handleAxiosError_resolve_def Let_def o split: option.splits)
  qed
  have x: "self (snd (handleAxiosError a d t)) = self t" for a d t
    by (simp add: handleAxiosError_def r)
  have h: "self (snd (responseErrorHandler err d t)) = self t" for err d t
  proof (cases err)
    case (Axios a)
    then show ?thesis by (simp add: responseErrorHandler_def x)
  next
    case (ErrorInstance n m)
    show ?thesis
      by (cases "Key n" err t rule: handleError_cases)
         (auto simp: responseErrorHandler_def ErrorInstance)
  next
    case (Plain v)
    then show ?thesis by (simp add: responseErrorHandler_def)
  qed
  have "self (snd (createDealWith g fn solutions ignoreGlobal error calls)) =
     new_registry (if ignoreGlobal then None else Some g) (Some solutions) fn"
    by (simp add: createDealWith_def Let_def h)
  with a x h show ?thesis by simp
qed

text \<open>
  At two inputs: a string handler, and a registered object whose \<^verbatim>\<open>before\<close> hook writes to
  it (the object changes, the registry does not).
\<close>

theorem dispatch_keeps_registry_witness:
  "self (snd (handleError (Key ''E1'') sampleError (start (register ''E1'' (HString ''erreur 1'') test_registry))))
     = register ''E1'' (HString ''erreur 1'') test_registry \<and>
   self (snd (handleError (Key ''E2'') sampleError (start (register ''E2'' (HObject 6) test_registry))))
     = register ''E2'' (HObject 6) test_registry"
  using dispatch_keeps_registry
    [of "Key ''E1''" sampleError "start (register ''E1'' (HString ''erreur 1'') test_registry)"]
    dispatch_keeps_registry
    [of "Key ''E2''" sampleError "start (register ''E2'' (HObject 6) test_registry)"]
  by (simp add: start_def)

subsection \<open>A sequence of keys: the first that resolves\<close>

lemma handleError_some_find:
  "handleError_some keys error s =
     (case List.find (\<lambda>key. key \<noteq> DUndefined \<and>
                         fst (handleError_key (js_String key) error s) \<noteq> Returned False) keys of
        None \<Rightarrow> (Returned False, s)
      | Some key \<Rightarrow> handleError_key (js_String key) error s)"
proof (induction keys)
  case Nil
  show ?case by simp
next
  case (Cons key rest)
  show ?case
  proof (cases "key = DUndefined")
    case True
    then show ?thesis by (simp add: Cons.IH)
  next
    case False
    show ?thesis
    proof (cases "js_String key" error s rule: handleError_key_cases)
      case declined
      then show ?thesis by (simp add: False Cons.IH)
    next
      case (raised e s')
      then show ?thesis by (simp add: False)
    qed
  qed
qed

text \<open>
  Claim C8. Given a sequence of keys, \<^verbatim>\<open>handleError\<close> does what it does on the leftmost
  key that is not \<^verbatim>\<open>undefined\<close> and whose own dispatch does not return \<open>False\<close> (it
  raises there, so no later key is tried); when there is no such key it returns \<open>False\<close>
  and changes nothing. The notifier is called at most once in the whole call, and
  \<open>False\<close> is returned only when every defined key returns \<open>False\<close> on its own.
\<close>

theorem handleError_keys_first_success:
  "handleError (Keys keys) error s =
     (case List.find (\<lambda>key. key \<noteq> DUndefined \<and>
                         fst (handleError (Key (js_String key)) error s) \<noteq> Returned False) keys of
        None \<Rightarrow> (Returned False, s)
      | Some key \<Rightarrow> handleError (Key (js_String key)) error s) \<and>
   (\<exists>calls. notified (snd (handleError (Keys keys) error s)) = notified s @ calls \<and> length calls \<le> 1) \<and>
   (fst (handleError (Keys keys) error s) = Returned False \<longrightarrow>
      (\<forall>key \<in> set keys. key \<noteq> DUndefined \<longrightarrow>
         fst (handleError (Key (js_String key)) error s) = Returned False))"
proof (intro conjI)
  show f: "handleError (Keys keys) error s =
     (case List.find (\<lambda>key. key \<noteq> DUndefined \<and>
                         fst (handleError (Key (js_String key)) error s) \<noteq> Returned False) keys of
        None \<Rightarrow> (Returned False, s)
      | Some key \<Rightarrow> handleError (Key (js_String key)) error s)"
    by (simp add: handleError_some_find split: option.splits)
  show "\<exists>calls. notified (snd (handleError (Keys keys) error s)) = notified s @ calls \<and> length calls \<le> 1"
    by (cases "Keys keys" error s rule: handleError_cases) auto
  show "fst (handleError (Keys keys) error s) = Returned False \<longrightarrow>
      (\<forall>key \<in> set keys. key \<noteq> DUndefined \<longrightarrow>
         fst (handleError (Key (js_String key)) error s) = Returned False)"
  proof (cases "List.find (\<lambda>key. key \<noteq> DUndefined \<and>
                         fst (handleError (Key (js_String key)) error s) \<noteq> Returned False) keys")
    case None
    then show ?thesis by (auto simp: find_None_iff)
  next
    case (Some key)
    then have "fst (handleError (Key (js_String key)) error s) \<noteq> Returned False"
      by (auto simp: find_Some_iff)
    with f Some show ?thesis by simp
  qed
qed

text \<open>
  The test-suite's case: of \<^verbatim>\<open>['bad', undefined, 'good']\<close> only \<^verbatim>\<open>'good'\<close> is
  registered, and the notifier is called once, with its message. With no key registered
  the call returns \<open>False\<close>.
\<close>

theorem handleError_keys_first_success_witness:
  "handleError (Keys [DStr ''bad'', DUndefined, DStr ''good'']) sampleError
       (start (register ''good'' (HString ''ok'') test_registry)) =
     (Threw (ApiError ''ok''),
      (start (register ''good'' (HString ''ok'') test_registry))
        \<lparr>notified := [(CustomNotifier 0, [(''type'', DStr ''negative''), (''message'', DStr ''ok'')])]\<rparr>) \<and>
   handleError (Keys [DStr ''bad'', DUndefined]) sampleError (start test_registry) =
     (Returned False, start test_registry) \<and>
   fst (handleError (Key ''bad'') sampleError (start test_registry)) = Returned False"
  using handleError_keys_first_success
    [of "[DStr ''bad'', DUndefined, DStr ''good'']" sampleError
        "start (register ''good'' (HString ''ok'') test_registry)"]
    handleError_keys_first_success [of "[DStr ''bad'', DUndefined]" sampleError "start test_registry"]
  by (simp add: sample_defs dispatch_defs)

subsection \<open>The notifier's options\<close>

text \<open>
  Claim C1, as the code has it. The object handed to the notifier has no \<^verbatim>\<open>severity\<close>
  field: the field is \<^verbatim>\<open>type\<close>. The payload is spread last, so a \<^verbatim>\<open>type\<close> or
  \<^verbatim>\<open>message\<close> of the payload replaces the registry's. A \<^verbatim>\<open>before\<close> hook that throws ends
  the execution before the notifier is reached. And \<^verbatim>\<open>silent\<close> is read after \<^verbatim>\<open>before\<close>
  has returned: a descriptor registered with \<^verbatim>\<open>silent: false\<close> whose \<^verbatim>\<open>before\<close> hook sets
  \<^verbatim>\<open>options.silent = true\<close> is executed without any call of the notifier.
\<close>

theorem notifier_options_counterexample:
  "notified (snd (handleErrorObject sampleError (Stored 2) (start test_registry))) =
     [(CustomNotifier 0,
       [(''type'', DStr ''negative''), (''message'', DStr ''erreur 2''), (''extra'', DNum ''42'')])] \<and>
   map_of (notifier_options erreur_2) ''severity'' = None \<and>
   notified (snd (handleErrorObject sampleError (Stored 4) (start test_registry))) =
     [(CustomNotifier 0, [(''type'', DStr ''warning''), (''message'', DStr ''see the log'')])] \<and>
   fst (handleErrorObject sampleError (Stored 5) (start test_registry)) =
     Threw (HookThrew (DStr ''before failed'')) \<and>
   notified (snd (handleErrorObject sampleError (Stored 5) (start test_registry))) = [] \<and>
   silent (objects (start test_registry) 6) = Some False \<and>
   fst (handleErrorObject sampleError (Stored 6) (start test_registry)) = Threw (ApiError ''erreur 2'') \<and>
   notified (snd (handleErrorObject sampleError (Stored 6) (start test_registry))) = []"
  by (simp add: descriptor_defs dispatch_defs sample_defs)

text \<open>
  Claim C1, amended. When a descriptor is executed whose \<^verbatim>\<open>before\<close> hook is absent or
  returns, and whose \<^verbatim>\<open>silent\<close> is not true once \<^verbatim>\<open>before\<close> has returned, the notifier
  of the registry is called exactly once. Its argument is the object with \<^verbatim>\<open>type\<close>
  \<^verbatim>\<open>"negative"\<close> and \<^verbatim>\<open>message\<close> the descriptor's message, overwritten and extended by
  the descriptor's payload, the last write of a key winning; without a payload it is exactly
  these two fields. Message and payload are those of the descriptor as \<^verbatim>\<open>before\<close> left
  it; without a \<^verbatim>\<open>before\<close> hook they are those of the descriptor as it was handed over.
\<close>

theorem handleErrorObject_notifies_once:
  "(call_hook before error options s = (None, o1, s1) \<and> silent (deref o1 s1) \<noteq> Some True \<longrightarrow>
     notified (snd (handleErrorObject error options s)) =
       notified s @ [(notifier (self s), notifier_options (deref o1 s1))]) \<and>
   (before (deref options s) = None \<and> silent (deref options s) \<noteq> Some True \<longrightarrow>
     notified (snd (handleErrorObject error options s)) =
       notified s @ [(notifier (self s), notifier_options (deref options s))]) \<and>
   map_of (notifier_options v) =
     map_of [(''type'', DStr ''negative''), (''message'', message_of v)] ++
     map_of (rev (case notify v of Some p \<Rightarrow> p | None \<Rightarrow> [])) \<and>
   (notify v = None \<longrightarrow>
      notifier_options v = [(''type'', DStr ''negative''), (''message'', message_of v)])"
proof -
  have main: "notified (snd (handleErrorObject error options s)) =
       notified s @ [(notifier (self s), notifier_options (deref o1 s1))]"
    if c1: "call_hook before error options s = (None, o1, s1)"
      and sil: "silent (deref o1 s1) \<noteq> Some True" for o1 s1
  proof -
    obtain x o' s' where "call_hook before error options s = (x, o', s')"
      and "self s' = self s" "notified s' = notified s"
      by (rule call_hook_cases)
    with c1 have f1: "self s1 = self s" "notified s1 = notified s"
      by simp_all
    define s2 where "s2 = s1\<lparr>notified := notified s1 @
                            [(notifier (self s1), notifier_options (deref o1 s1))]\<rparr>"
    obtain x2 o2 s3 where c2: "call_hook after error o1 s2 = (x2, o2, s3)"
      and f3: "notified s3 = notified s2"
      by (rule call_hook_cases)
    from c1 c2 sil have "snd (handleErrorObject error options s) = s3"
      by (cases x2) (simp_all add: handleErrorObject_def s2_def)
    with f3 f1 show ?thesis
      by (simp add: s2_def)
  qed
  have absent: "call_hook before error options s = (None, options, s)"
    if "before (deref options s) = None"
    using that by (simp add: call_hook_def)
  have "map_of (notifier_options v) =
     map_of [(''type'', DStr ''negative''), (''message'', message_of v)] ++
     map_of (rev (case notify v of Some p \<Rightarrow> p | None \<Rightarrow> []))"
    by (simp add: notifier_options_def map_of_spread)
  moreover have "notifier_options v = [(''type'', DStr ''negative''), (''message'', message_of v)]"
    if "notify v = None"
    using that by (simp add: notifier_options_def spread_def)
  ultimately show ?thesis
    using main absent by blast
qed

text \<open>
  The test-suite's descriptor E2, whose hooks are mocks, and the descriptor made from the
  string handler \<^verbatim>\<open>'erreur 1'\<close>.
\<close>

theorem handleErrorObject_notifies_once_witness:
  "notified (snd (handleErrorObject sampleError (Stored 2) (start test_registry))) =
     [(CustomNotifier 0,
       [(''type'', DStr ''negative''), (''message'', DStr ''erreur 2''), (''extra'', DNum ''42'')])] \<and>
   notified (snd (handleErrorObject sampleError
       (Fresh \<lparr>message = Some (DStr ''erreur 1''), before = None, after = None, silent = None,
               notify = None\<rparr>) (start test_registry))) =
     [(CustomNotifier 0, [(''type'', DStr ''negative''), (''message'', DStr ''erreur 1'')])]"
proof
  let ?s = "start test_registry"
  let ?c = "call_hook before sampleError (Stored 2) ?s"
  have "?c = (None, fst (snd ?c), snd (snd ?c)) \<and>
        silent (deref (fst (snd ?c)) (snd (snd ?c))) \<noteq> Some True"
    by (simp add: call_hook_def sample_defs erreur_2_def)
  with handleErrorObject_notifies_once [of sampleError "Stored 2" ?s "fst (snd ?c)" "snd (snd ?c)"]
  have "notified (snd (handleErrorObject sampleError (Stored 2) ?s)) =
       notified ?s @ [(notifier (self ?s), notifier_options (deref (fst (snd ?c)) (snd (snd ?c))))]"
    by blast
  then show "notified (snd (handleErrorObject sampleError (Stored 2) ?s)) =
     [(CustomNotifier 0,
       [(''type'', DStr ''negative''), (''message'', DStr ''erreur 2''), (''extra'', DNum ''42'')])]"
    by (simp add: call_hook_def sample_defs erreur_2_def notifier_options_def spread_def message_of_def)
next
  let ?s = "start test_registry"
  let ?v = "\<lparr>message = Some (DStr ''erreur 1''), before = None, after = None, silent = None,
               notify = None\<rparr>"
  have "before (deref (Fresh ?v) ?s) = None \<and> silent (deref (Fresh ?v) ?s) \<noteq> Some True"
    "notify ?v = None"
    by simp_all
  with handleErrorObject_notifies_once [of sampleError "Fresh ?v" ?s _ _ ?v]
  have "notified (snd (handleErrorObject sampleError (Fresh ?v) ?s)) =
       notified ?s @ [(notifier (self ?s), notifier_options (deref (Fresh ?v) ?s))]"
    "notifier_options ?v = [(''type'', DStr ''negative''), (''message'', message_of ?v)]"
    by blast+
  then show "notified (snd (handleErrorObject sampleError (Fresh ?v) ?s)) =
     [(CustomNotifier 0, [(''type'', DStr ''negative''), (''message'', DStr ''erreur 1'')])]"
    by (simp add: sample_defs message_of_def)
qed

subsection \<open>Transport errors: raw passthrough and the body message\<close>


lemma body_message_iff:
  "body_message d = Some m \<longleftrightarrow> js_get d ''message'' = DStr m \<and> m \<noteq> []"
  by (auto simp: body_message_def split: jdata.splits if_splits)

text \<open>
  A descriptor made by the transport branch has no hooks: it notifies unless silent, and
  raises its message.
\<close>

lemma synthesised_descriptor:
  "then_return (handleErrorObject error
      (Fresh \<lparr>message = Some m, before = None, after = None, silent = sil, notify = None\<rparr>) s) x =
     (Threw (ApiError (api_error_message m)),
      if sil = Some True then s
      else s\<lparr>notified := notified s @
             [(notifier (self s), [(''type'', DStr ''negative''), (''message'', m)])]\<rparr>)"
  by (simp add: dispatch_defs)

lemma resolve_body_message:
  assumes "js_get (response_data e) ''message'' = DStr m" and "m \<noteq> []"
  shows "handleAxiosError_resolve e s =
     (Threw (ApiError m),
      if request_silent e = Some True then s
      else s\<lparr>notified := notified s @
             [(notifier (self s), [(''type'', DStr ''negative''), (''message'', DStr m)])]\<rparr>)"
proof -
  from assms have "body_message (response_data e) = Some m"
    by (simp add: body_message_iff)
  then show ?thesis
    by (simp add: handleAxiosError_resolve_def Let_def synthesised_descriptor api_error_message_def)
qed

lemma resolve_key:
  assumes "body_message (response_data e) = None"
    and "handleError (Keys (seekers e)) (Axios e) s = (Threw x, s')"
  shows "handleAxiosError_resolve e s = (Threw x, s')"
  using assms by (simp add: handleAxiosError_resolve_def Let_def)

lemma resolve_fallback:
  assumes "body_message (response_data e) = None"
    and "fst (handleError (Keys (seekers e)) (Axios e) s) = Returned False"
    and "body_description (response_data e) \<noteq> None \<or> axios_message e \<noteq> []"
  shows "handleAxiosError_resolve e s =
     (Threw (ApiError (api_error_message
        (fallback_message e))),
      if request_silent e = Some True then s
      else s\<lparr>notified := notified s @
             [(notifier (self s),
               [(''type'', DStr ''negative''),
                (''message'', fallback_message e)])]\<rparr>)"
proof (cases "Keys (seekers e)" "Axios e" s rule: handleError_cases)
  case declined
  then have "handleError_some (seekers e) (Axios e) s = (Returned False, s)"
    by simp
  with assms(1,3) show ?thesis
    by (auto simp: handleAxiosError_resolve_def Let_def synthesised_descriptor)
next
  case (raised x s')
  with assms(2) show ?thesis by simp
qed

lemma resolve_outcome:
  "(\<exists>m. fst (handleAxiosError_resolve e s) = Threw (ApiError m)) \<or>
   (\<exists>x. fst (handleAxiosError_resolve e s) = Threw (HookThrew x)) \<or>
   (handleAxiosError_resolve e s = (Returned DUndefined, s) \<and>
    body_message (response_data e) = None \<and> body_description (response_data e) = None \<and>
    axios_message e = [] \<and> handleError (Keys (seekers e)) (Axios e) s = (Returned False, s))"
proof (cases "body_message (response_data e)")
  case (Some m)
  then show ?thesis
    by (simp add: handleAxiosError_resolve_def Let_def synthesised_descriptor)
next
  case None
  show ?thesis
  proof (cases "Keys (seekers e)" "Axios e" s rule: handleError_cases)
    case declined
    show ?thesis
    proof (cases "body_description (response_data e) \<noteq> None \<or> axios_message e \<noteq> []")
      case True
      with None declined show ?thesis
        by (simp add: resolve_fallback)
    next
      case False
      from declined have "handleError_some (seekers e) (Axios e) s = (Returned False, s)"
        by simp
      with None False declined show ?thesis
        by (simp add: handleAxiosError_resolve_def Let_def)
    qed
  next
    case (raised x s')
    with None have "handleAxiosError_resolve e s = (Threw x, s')"
      by (simp add: resolve_key)
    with raised(2) show ?thesis by auto
  qed
qed



text \<open>
  Claim C7, as the code has it: with \<^verbatim>\<open>config.silent\<close> true the body message is raised
  and the notifier is not called.
\<close>

theorem body_message_silent_counterexample:
  "responseErrorHandler (Axios axios_msg_api_silent) False (start test_registry) =
     (Threw (ApiError ''msg API''), start test_registry) \<and>
   notified (start test_registry) = []"
  by (simp add: axios_msg_api_silent_def axios_defs dispatch_defs start_def)

text \<open>
  Claim C7, amended. A transport error that is not passed through raw and whose response
  body has a non-empty string \<^verbatim>\<open>message\<close> is raised as an \<open>ApiError\<close> with exactly that
  message; the notifier is called once with that message unless \<^verbatim>\<open>config.silent\<close> is true,
  and then not at all. The outcome does not depend on the handlers of the registry.
\<close>

theorem body_message_wins:
  "js_get (response_data e) ''message'' = DStr m \<and> m \<noteq> [] \<and> (direct \<or> \<not> request_raw e) \<longrightarrow>
     responseErrorHandler (Axios e) direct s =
       (Threw (ApiError m),
        if request_silent e = Some True then s
        else s\<lparr>notified := notified s @
               [(notifier (self s), [(''type'', DStr ''negative''), (''message'', DStr m)])]\<rparr>)"
  by (auto simp: responseErrorHandler_def handleAxiosError_def resolve_body_message)

text \<open>The body message wins over the handler registered for the error's code.\<close>

theorem body_message_wins_witness:
  "responseErrorHandler (Axios axios_msg_api) False
       (start (register ''E1'' (HString ''erreur 1'') test_registry)) =
     (Threw (ApiError ''msg API''),
      (start (register ''E1'' (HString ''erreur 1'') test_registry))
        \<lparr>notified := [(CustomNotifier 0, [(''type'', DStr ''negative''), (''message'', DStr ''msg API'')])]\<rparr>)"
  using body_message_wins
    [of axios_msg_api "''msg API''" False "start (register ''E1'' (HString ''erreur 1'') test_registry)"]
  by (simp add: axios_msg_api_def new_AxiosError_def response_data_def request_raw_def
      request_silent_def sample_defs)

subsection \<open>What responseErrorHandler ends in\<close>

text \<open>
  Every dispatch of a failure other than \<^verbatim>\<open>null\<close> raises (an \<open>ApiError\<close>, the failure
  itself, or what a hook threw) but one: a transport error, not passed through raw, with no
  body message and no body description, an empty message of its own and no key that
  resolves. There \<^verbatim>\<open>handleAxiosError\<close> reaches its end and the call returns
  \<^verbatim>\<open>undefined\<close>.
\<close>

lemma responseErrorHandler_outcome:
  assumes "error \<noteq> Plain DNull"
  shows "(\<exists>m. fst (responseErrorHandler error direct s) = Threw (ApiError m)) \<or>
    fst (responseErrorHandler error direct s) = Threw (Original error) \<or>
    (\<exists>x. fst (responseErrorHandler error direct s) = Threw (HookThrew x)) \<or>
    (\<exists>e. error = Axios e \<and> (direct \<or> \<not> request_raw e) \<and>
         body_message (response_data e) = None \<and> body_description (response_data e) = None \<and>
         axios_message e = [] \<and>
         handleError (Keys (seekers e)) (Axios e) s = (Returned False, s) \<and>
         responseErrorHandler error direct s = (Returned DUndefined, s))"
proof (cases error)
  case (Axios e)
  show ?thesis
  proof (cases "\<not> direct \<and> request_raw e")
    case True
    then show ?thesis
      by (simp add: Axios responseErrorHandler_def handleAxiosError_def)
  next
    case False
    then have "responseErrorHandler error direct s = handleAxiosError_resolve e s"
      by (auto simp: Axios responseErrorHandler_def handleAxiosError_def)
    with resolve_outcome [of e s] False Axios show ?thesis
      by auto
  qed
next
  case (ErrorInstance n m)
  show ?thesis
    by (cases "Key n" error s rule: handleError_cases)
       (auto simp: responseErrorHandler_def ErrorInstance)
next
  case (Plain v)
  with assms show ?thesis by (simp add: responseErrorHandler_def)
qed

text \<open>
  Claim C2 at a transport error with an empty message. With no response and no handler
  for any of its keys, \<^verbatim>\<open>new AxiosError('')\<close> runs through \<^verbatim>\<open>handleAxiosError\<close> to its
  end, and \<^verbatim>\<open>responseErrorHandler\<close> returns \<^verbatim>\<open>undefined\<close>: nothing is raised, nothing
  boolean is returned, no notifier is called. The sibling path for an error that is no
  transport error ends in \<^verbatim>\<open>throw error\<close>, and so does this one as soon as the message
  is not empty.
\<close>

theorem transport_error_falls_through:
  "responseErrorHandler (Axios (new_AxiosError [] None)) False (start test_registry) =
     (Returned DUndefined, start test_registry) \<and>
   responseErrorHandler sampleError False (start test_registry) =
     (Threw (Original sampleError), start test_registry) \<and>
   fst (responseErrorHandler (Axios (new_AxiosError ''boom message'' (Some ''CODE3''))) False
          (start test_registry)) = Threw (ApiError ''boom message'')"
  by (simp add: axios_defs dispatch_defs sample_defs)

subsection \<open>Silence\<close>

lemma find_handler_local:
  "handlers r k = Some h \<Longrightarrow> handler_truthy h \<Longrightarrow> find_handler r k = Some h"
  by (cases r) simp

text \<open>
  A descriptor without a \<^verbatim>\<open>before\<close> hook and with \<^verbatim>\<open>silent: true\<close> is executed without
  a call of the notifier.
\<close>

lemma handleErrorObject_silent:
  assumes "before (deref options s) = None" and "silent (deref options s) = Some True"
  shows "notified (snd (handleErrorObject error options s)) = notified s"
proof -
  from assms(1) have c1: "call_hook before error options s = (None, options, s)"
    by (simp add: call_hook_def)
  obtain x2 o2 s3 where c2: "call_hook after error options s = (x2, o2, s3)"
    and f3: "notified s3 = notified s"
    by (rule call_hook_cases)
  from c1 c2 assms(2) have "snd (handleErrorObject error options s) = s3"
    by (cases x2) (simp_all add: handleErrorObject_def)
  with f3 show ?thesis by simp
qed

text \<open>
  Claim C5 at a transport error that resolves to a registered handler. Sent with
  \<^verbatim>\<open>config.silent\<close> true, the error with code \<^verbatim>\<open>TEST\<close> is raised with the message of the
  handler registered for \<^verbatim>\<open>TEST\<close>, and the notifier is called with it: \<^verbatim>\<open>config.silent\<close>
  is not looked at. The sibling branches look at it: the same error on a registry without
  that handler, and an error with a body message, are raised without a call of the notifier.
\<close>

theorem config_silent_ignored:
  "request_silent axios_silent_test = Some True \<and>
   responseErrorHandler (Axios axios_silent_test) False
       (start (register ''TEST'' (HString ''global'') test_registry)) =
     (Threw (ApiError ''global''),
      (start (register ''TEST'' (HString ''global'') test_registry))
        \<lparr>notified := [(CustomNotifier 0, [(''type'', DStr ''negative''), (''message'', DStr ''global'')])]\<rparr>) \<and>
   responseErrorHandler (Axios axios_silent_test) False (start test_registry) =
     (Threw (ApiError ''Error Message''), start test_registry) \<and>
   responseErrorHandler (Axios axios_msg_api_silent) False (start test_registry) =
     (Threw (ApiError ''msg API''), start test_registry) \<and>
   handleError (Key ''E3'') sampleError (start (register ''E3'' (HObject 3) test_registry)) =
     (Threw (ApiError ''erreur 3''), start (register ''E3'' (HObject 3) test_registry))"
  by (simp add: axios_silent_test_def axios_msg_api_silent_def axios_defs dispatch_defs sample_defs
      descriptor_defs)

subsection \<open>String handlers and the empty string\<close>

lemma handleError_string_handler:
  assumes "handlers (self s) k = Some (HString h)" and "h \<noteq> []"
  shows "handleError (Key k) error s =
     (Threw (ApiError h),
      s\<lparr>notified := notified s @
           [(notifier (self s), [(''type'', DStr ''negative''), (''message'', DStr h)])]\<rparr>)"
proof -
  from assms have "find_handler (self s) k = Some (HString h)"
    by (simp add: find_handler_local)
  with assms(2) show ?thesis
    by (simp add: dispatch_defs)
qed

text \<open>
  Claim C3 at the empty string. Registered under \<^verbatim>\<open>E1\<close>, the handler \<^verbatim>\<open>''\<close> is read as
  no handler: \<^verbatim>\<open>handleError\<close> returns \<open>False\<close>, raises nothing and calls no notifier.
  The same message registered as the object \<^verbatim>\<open>{message: ''}\<close> is raised and notified.
  For every other string the claim holds, by \<open>handleError_string_handler\<close>.
\<close>

theorem empty_string_handler_declined:
  "handleError (Key ''E1'') sampleError (start (register ''E1'' (HString []) test_registry)) =
     (Returned False, start (register ''E1'' (HString []) test_registry)) \<and>
   objects (start (register ''E1'' (HObject 1) test_registry)) 1 =
     \<lparr>message = Some (DStr []), before = None, after = None, silent = None, notify = None\<rparr> \<and>
   handleError (Key ''E1'') sampleError (start (register ''E1'' (HObject 1) test_registry)) =
     (Threw (ApiError []),
      (start (register ''E1'' (HObject 1) test_registry))
        \<lparr>notified := [(CustomNotifier 0, [(''type'', DStr ''negative''), (''message'', DStr [])])]\<rparr>)"
  by (simp add: dispatch_defs sample_defs empty_message_def)

subsection \<open>Delegation to the parent\<close>

lemma find_handler_absent:
  "(\<forall>q \<in> set (chain r). handlers q k = None) \<Longrightarrow> find_handler r k = None"
proof (induction r)
  case (Registry hs p n)
  then show ?case
    by (cases p) (auto simp: Let_def)
qed

lemma find_handler_delegation:
  "(handlers child k = None \<and> parent child = Some p \<and> handlers p k = Some h \<and> handler_truthy h \<longrightarrow>
      find_handler child k = Some h) \<and>
   (handlers child k = Some h \<and> handler_truthy h \<longrightarrow> find_handler child k = Some h) \<and>
   ((\<forall>q \<in> set (chain child). handlers q k = None) \<longrightarrow> find_handler child k = None)"
proof (intro conjI impI)
  assume "handlers child k = None \<and> parent child = Some p \<and> handlers p k = Some h \<and> handler_truthy h"
  then show "find_handler child k = Some h"
    by (cases child) (simp add: find_handler_local)
next
  assume "handlers child k = Some h \<and> handler_truthy h"
  then show "find_handler child k = Some h"
    by (simp add: find_handler_local)
next
  assume "\<forall>q \<in> set (chain child). handlers q k = None"
  then show "find_handler child k = None"
    by (rule find_handler_absent)
qed

text \<open>
  Claim C4 at the empty string. A key registered on the child with the handler \<^verbatim>\<open>''\<close> and
  on the parent with \<^verbatim>\<open>'parent'\<close> finds the parent's entry, not the child's; a key
  registered only on the parent, with \<^verbatim>\<open>''\<close>, finds nothing. For entries other than the empty
  string the claim holds, by \<open>find_handler_delegation\<close>.
\<close>

theorem empty_string_entry_skipped:
  "find_handler (new_registry (Some (register ''k'' (HString ''parent'') test_registry))
      (Some [(''k'', HString [])]) None) ''k'' = Some (HString ''parent'') \<and>
   find_handler (new_registry (Some (register ''k'' (HString []) test_registry)) None None) ''k'' = None \<and>
   handlers (new_registry (Some (register ''k'' (HString ''parent'') test_registry))
      (Some [(''k'', HString [])]) None) ''k'' = Some (HString [])"
  by (simp add: sample_defs)

end
